theory Spec2Isabelle
  imports Main "HOL-Library.Word"
begin

section \<open>JavaScript string primitives used by the converter\<close>

text \<open>
  A JavaScript string is a sequence of code units. The model uses \<open>string\<close> (a list of
  8-bit characters), read as the code units U+0000 to U+00FF; file names and messages
  with code units above U+00FF are outside the model.
\<close>

text \<open>\<open>s.startsWith(p)\<close>: \<open>p\<close> is a prefix of \<open>s\<close>.\<close>

fun startsWith :: "string \<Rightarrow> string \<Rightarrow> bool" where
  "startsWith s [] = True"
| "startsWith [] (p # ps) = False"
| "startsWith (c # cs) (p # ps) = (c = p \<and> startsWith cs ps)"

text \<open>\<open>s.includes(sub)\<close>: \<open>sub\<close> occurs in \<open>s\<close> as a contiguous run, compared code unit by
  code unit (case-sensitive).\<close>

fun includes_str :: "string \<Rightarrow> string \<Rightarrow> bool" where
  "includes_str [] sub = (sub = [])"
| "includes_str (c # cs) sub = (startsWith (c # cs) sub \<or> includes_str cs sub)"

text \<open>\<open>s.endsWith(suf)\<close>.\<close>

definition endsWith :: "string \<Rightarrow> string \<Rightarrow> bool" where
  "endsWith s suf = (length suf \<le> length s \<and> drop (length s - length suf) s = suf)"

text \<open>
  \<open>s.toLowerCase()\<close> on code units below U+0100: \<open>A\<close>..\<open>Z\<close> and the Latin-1 capitals
  U+00C0..U+00DE (the multiplication sign U+00D7 apart) move up by 32, every other code
  unit is kept.
\<close>

definition toLowerCase_unit :: "char \<Rightarrow> char" where
  "toLowerCase_unit c =
     (let n = (of_char c :: nat) in
      if (65 \<le> n \<and> n \<le> 90) \<or> (192 \<le> n \<and> n \<le> 222 \<and> n \<noteq> 215)
      then char_of (n + 32) else c)"

definition toLowerCase :: "string \<Rightarrow> string" where
  "toLowerCase s = map toLowerCase_unit s"

text \<open>
  The regular expression \<open>/\.pdf$/i\<close>. Under the \<open>i\<close> flag (without \<open>u\<close>) two code units
  match when their canonical (upper-case) forms are equal, and a code unit from U+0080 on
  never canonicalises to an ASCII one; so against the ASCII pattern \<open>.pdf\<close> only the case
  of \<open>a\<close>..\<open>z\<close> is folded. \<open>$\<close> (no \<open>m\<close> flag) anchors the match at the end of the input.
\<close>

definition canonicalize :: "char \<Rightarrow> char" where
  "canonicalize c =
     (let n = (of_char c :: nat) in
      if 97 \<le> n \<and> n \<le> 122 then char_of (n - 32) else c)"

definition matches_pdf_regex :: "string \<Rightarrow> bool" where
  "matches_pdf_regex s =
     (4 \<le> length s \<and>
      map canonicalize (drop (length s - 4) s) = map canonicalize ''.pdf'')"

text \<open>\<open>s.replace(/\.pdf$/i, "")\<close>: the matched suffix, if any, is removed.\<close>

definition replace_pdf_regex :: "string \<Rightarrow> string" where
  "replace_pdf_regex s = (if matches_pdf_regex s then take (length s - 4) s else s)"

section \<open>Data model\<close>

type_synonym bytes = "8 word list"

text \<open>
  A browser \<open>File\<close>: \<open>name\<close>, \<open>type\<close> (the declared media type), the bytes and
  \<open>lastModified\<close>. Its \<open>size\<close> is the number of its bytes.
\<close>

record File =
  file_name :: string
  file_type :: string
  file_bytes :: bytes
  lastModified :: nat

definition file_size :: "File \<Rightarrow> nat" where
  "file_size f = length (file_bytes f)"

text \<open>\<open>interface PdfConversionResult { imageUrl: string; file: File | null; error?: string }\<close>\<close>

record PdfConversionResult =
  imageUrl :: string
  file_field :: "File option"
  error :: "string option"

text \<open>
  A value caught by \<open>catch (err)\<close>. An instance of \<open>Error\<close> is carried with its \<open>message\<close>:
  \<open>Some m\<close> when \<open>err.message\<close> is the string \<open>m\<close>, \<open>None\<close> when it is a value on which
  \<open>.includes\<close> cannot be called (\<open>undefined\<close>, \<open>null\<close>, a number). Any other value is carried
  with \<open>String(err)\<close>: \<open>Some s\<close> when the conversion gives the string \<open>s\<close>, \<open>None\<close> when the
  conversion itself throws (an object without a usable \<open>toString\<close>). A \<open>message\<close> that is not
  a string and yet has an \<open>includes\<close> method of its own (an array) is outside the model.
\<close>

datatype thrown = ErrorObject "string option" | OtherValue "string option"

text \<open>What leaves the \<open>catch\<close> block when the block itself fails on such a value: the
  engine's \<open>TypeError\<close>. The wording of its message is the engine's; the model fixes one.\<close>

definition type_error :: thrown where
  "type_error = ErrorObject (Some ''TypeError'')"

text \<open>
  What an \<open>await\<close> observes of the awaited promise: it is fulfilled with a value, it is
  rejected with a thrown value, or it never settles (the source sets no timeout).
\<close>

datatype 'a outcome = Fulfilled 'a | Rejected thrown | Pending

section \<open>The rendering library and the browser, as the converter sees them\<close>

record viewport =
  width :: nat
  height :: nat

record canvas =
  canvas_width :: nat
  canvas_height :: nat
  imageSmoothingEnabled :: bool
  imageSmoothingQuality :: string

text \<open>A page proxy: \<open>page.getViewport({scale})\<close> and \<open>page.render({canvasContext, viewport}).promise\<close>.\<close>

record PDFPage =
  getViewport :: "nat \<Rightarrow> viewport"
  render :: "canvas \<Rightarrow> viewport \<Rightarrow> unit outcome"

text \<open>A document proxy: \<open>pdf.numPages\<close> and \<open>pdf.getPage(n)\<close>.\<close>

record PDFDocument =
  numPages :: nat
  getPage :: "nat \<Rightarrow> PDFPage outcome"

text \<open>The library module: \<open>lib.GlobalWorkerOptions.workerSrc\<close> and
  \<open>lib.getDocument({data, verbosity: 0}).promise\<close>.\<close>

record pdfjs =
  workerSrc :: string
  getDocument :: "bytes \<Rightarrow> PDFDocument outcome"

text \<open>
  The environment of one invocation: whether \<open>window\<close> and \<open>document\<close> are defined, what
  \<open>await loadPdfJs()\<close> observes, \<open>file.arrayBuffer()\<close>, whether \<open>canvas.getContext("2d")\<close>
  gives a context, \<open>canvas.toBlob\<close> (the blob or \<open>null\<close> handed to the callback; \<open>Rejected\<close>
  when \<open>toBlob\<close> throws inside the promise executor; \<open>Pending\<close> when the callback is never
  called), \<open>URL.createObjectURL\<close> and \<open>Date.now()\<close>. \<open>URL.createObjectURL\<close> and the \<open>File\<close>
  constructor are taken to succeed.
\<close>

record env =
  hasWindow :: bool
  hasDocument :: bool
  loadPdfJs_result :: "pdfjs outcome"
  arrayBuffer :: "File \<Rightarrow> bytes outcome"
  getContext_2d :: bool
  toBlob :: "canvas \<Rightarrow> string \<Rightarrow> nat \<Rightarrow> bytes option outcome"
  createObjectURL :: "bytes \<Rightarrow> string"
  now :: nat

section \<open>Calls, in order\<close>

text \<open>The calls the converter makes into the library and the browser (console output is
  not modelled).\<close>

datatype call =
    LoadPdfJs | ArrayBuffer | GetDocument | GetPage nat | GetViewport
  | CreateCanvas | GetContext | Render | ToBlob | CreateObjectURL

type_synonym 'a io = "call list \<Rightarrow> 'a outcome \<times> call list"

definition ret :: "'a \<Rightarrow> 'a io" where
  "ret v = (\<lambda>tr. (Fulfilled v, tr))"

definition throw :: "thrown \<Rightarrow> 'a io" where
  "throw t = (\<lambda>tr. (Rejected t, tr))"

text \<open>One call: it is recorded, and its outcome is what the rest of the block sees.\<close>

definition invoke :: "call \<Rightarrow> 'a outcome \<Rightarrow> 'a io" where
  "invoke c r = (\<lambda>tr. (r, tr @ [c]))"

text \<open>Sequencing inside a \<open>try\<close> block: a rejection or a promise that never settles ends
  the block.\<close>

definition bind :: "'a io \<Rightarrow> ('a \<Rightarrow> 'b io) \<Rightarrow> 'b io" where
  "bind m k = (\<lambda>tr. case m tr of
      (Fulfilled v, tr') \<Rightarrow> k v tr'
    | (Rejected t, tr') \<Rightarrow> (Rejected t, tr')
    | (Pending, tr') \<Rightarrow> (Pending, tr'))"

text \<open>\<open>try { m } catch (err) { h }\<close>\<close>

definition try_catch :: "'a io \<Rightarrow> (thrown \<Rightarrow> 'a io) \<Rightarrow> 'a io" where
  "try_catch m h = (\<lambda>tr. case m tr of
      (Rejected t, tr') \<Rightarrow> h t tr'
    | (Fulfilled v, tr') \<Rightarrow> (Fulfilled v, tr')
    | (Pending, tr') \<Rightarrow> (Pending, tr'))"

section \<open>convertPdfToImage\<close>

definition maxSize :: nat where
  "maxSize = 50 * 1024 * 1024"

text \<open>The object \<open>{ imageUrl: "", file: null, error: msg }\<close> of every failure return.\<close>

definition failure :: "string \<Rightarrow> PdfConversionResult" where
  "failure msg = \<lparr>imageUrl = '''', file_field = None, error = Some msg\<rparr>"

text \<open>
  The \<open>catch\<close> block. \<open>errorMessage\<close> starts as \<open>"Failed to convert PDF"\<close> and is then
  assigned on both branches of \<open>if (err instanceof Error)\<close>, so the initial text is never
  read. \<open>errorMessage_of\<close> is the variable after that assignment: \<open>None\<close> when
  \<open>String(err)\<close> throws, or when \<open>err.message\<close> is not a string, so that the first
  \<open>errorMessage.includes(...)\<close> throws. In both cases the block throws to the caller.
\<close>

definition errorMessage_of :: "thrown \<Rightarrow> string option" where
  "errorMessage_of err = (case err of ErrorObject m \<Rightarrow> m | OtherValue s \<Rightarrow> s)"

definition classify :: "string \<Rightarrow> string" where
  "classify errorMessage =
     (if includes_str errorMessage ''Invalid PDF''
      then ''The uploaded file appears to be corrupted or is not a valid PDF.''
      else if includes_str errorMessage ''password''
      then ''Password-protected PDFs are not supported.''
      else if includes_str errorMessage ''worker''
      then ''PDF processing worker failed to load. Please try again.''
      else errorMessage)"

definition catch_block :: "thrown \<Rightarrow> PdfConversionResult io" where
  "catch_block err =
     (case errorMessage_of err of
        None \<Rightarrow> throw type_error
      | Some errorMessage \<Rightarrow> ret (failure (classify errorMessage)))"

text \<open>The callback of \<open>canvas.toBlob\<close>.\<close>

definition blob_callback :: "env \<Rightarrow> File \<Rightarrow> bytes option \<Rightarrow> PdfConversionResult io" where
  "blob_callback e f blob =
     (case blob of
        None \<Rightarrow> ret (failure ''Failed to create image blob from PDF'')
      | Some b \<Rightarrow>
          (let originalName = replace_pdf_regex (file_name f);
               imageFile = \<lparr>file_name = originalName @ ''.png'', file_type = ''image/png'',
                            file_bytes = b, lastModified = now e\<rparr>
           in bind (invoke CreateObjectURL (Fulfilled (createObjectURL e b)))
                (\<lambda>url. ret \<lparr>imageUrl = url, file_field = Some imageFile, error = None\<rparr>)))"

text \<open>The canvas as the source sets it up: sized to the viewport, smoothing enabled at
  quality \<open>"high"\<close>.\<close>

definition setup_canvas :: "viewport \<Rightarrow> canvas" where
  "setup_canvas vp =
     \<lparr>canvas_width = width vp, canvas_height = height vp,
      imageSmoothingEnabled = True, imageSmoothingQuality = ''high''\<rparr>"

text \<open>The body of the \<open>try\<close> block. The scale is \<open>2.0\<close>; the quality \<open>0.9\<close> handed to
  \<open>toBlob\<close> is carried in percent.\<close>

definition try_block :: "env \<Rightarrow> File \<Rightarrow> PdfConversionResult io" where
  "try_block e f =
     bind (invoke LoadPdfJs (loadPdfJs_result e)) (\<lambda>lib.
     bind (invoke ArrayBuffer (arrayBuffer e f)) (\<lambda>buf.
     bind (invoke GetDocument (getDocument lib buf)) (\<lambda>pdf.
     bind (invoke (GetPage 1) (getPage pdf 1)) (\<lambda>page.
     bind (invoke GetViewport (Fulfilled (getViewport page 2))) (\<lambda>vp.
     bind (invoke CreateCanvas (Fulfilled ())) (\<lambda>_.
     bind (invoke GetContext (Fulfilled (getContext_2d e))) (\<lambda>context.
       if \<not> context then throw (ErrorObject (Some ''Could not get 2D canvas context''))
       else
         bind (invoke Render (render page (setup_canvas vp) vp)) (\<lambda>_.
         bind (invoke ToBlob (toBlob e (setup_canvas vp) ''image/png'' 90))
           (blob_callback e f)))))))))"

definition convertPdfToImage :: "env \<Rightarrow> File \<Rightarrow> PdfConversionResult outcome \<times> call list" where
  "convertPdfToImage e f =
     (if \<not> hasWindow e \<or> \<not> hasDocument e
      then (Fulfilled (failure ''PDF conversion only works in the browser.''), [])
      else if \<not> includes_str (file_type f) ''pdf'' \<and> \<not> endsWith (toLowerCase (file_name f)) ''.pdf''
      then (Fulfilled (failure ''File must be a PDF document.''), [])
      else if file_size f > maxSize
      then (Fulfilled (failure ''PDF file is too large. Maximum size is 50MB.''), [])
      else try_catch (try_block e f) catch_block [])"

section \<open>loadPdfJs\<close>

text \<open>
  The module state: \<open>pdfjsLib\<close>, \<open>loadPromise\<close>, and every promise
  \<open>import("pdfjs-dist/build/pdf.mjs").then(...)\<close> created so far with its present state, in
  the order of creation. \<open>loadPromise\<close> holds the index of the promise it refers to. The
  length of \<open>promises\<close> is the number of imports started.
\<close>

record loader =
  pdfjsLib :: "pdfjs option"
  loadPromise :: "nat option"
  promises :: "pdfjs outcome list"

definition initial :: loader where
  "initial = \<lparr>pdfjsLib = None, loadPromise = None, promises = []\<rparr>"

text \<open>What a call of \<open>loadPdfJs\<close> returns: the memoized handle, or a promise.\<close>

datatype loaded = Handle pdfjs | Promise nat

text \<open>
  \<open>loadPdfJs\<close>. A dynamic \<open>import()\<close> reports every failure through the promise it
  returns and \<open>.then\<close> does not throw, so the \<open>catch\<close> block of the source, which only
  guards the synchronous part, has no path leading to it.
\<close>

definition loadPdfJs :: "loader \<Rightarrow> loaded \<times> loader" where
  "loadPdfJs s =
     (case pdfjsLib s of
        Some lib \<Rightarrow> (Handle lib, s)
      | None \<Rightarrow>
          (case loadPromise s of
             Some p \<Rightarrow> (Promise p, s)
           | None \<Rightarrow>
               (let p = length (promises s)
                in (Promise p, s\<lparr>loadPromise := Some p, promises := promises s @ [Pending]\<rparr>))))"

text \<open>
  The import behind promise \<open>p\<close> succeeds with module \<open>lib\<close>: the \<open>then\<close> callback sets the
  worker location (\<open>url\<close> is \<open>new URL(..., import.meta.url).toString()\<close>), stores the module
  in \<open>pdfjsLib\<close> and fulfils the promise with it. A promise settles once.
\<close>

definition import_fulfilled :: "nat \<Rightarrow> pdfjs \<Rightarrow> string \<Rightarrow> loader \<Rightarrow> loader" where
  "import_fulfilled p lib url s =
     (if p < length (promises s) \<and> promises s ! p = Pending
      then s\<lparr>pdfjsLib := Some (lib\<lparr>workerSrc := url\<rparr>),
             promises := (promises s)[p := Fulfilled (lib\<lparr>workerSrc := url\<rparr>)]\<rparr>
      else s)"

text \<open>The import behind promise \<open>p\<close> fails (or the callback throws before it stores the
  module): the promise is rejected, and neither variable is written.\<close>

definition import_rejected :: "nat \<Rightarrow> thrown \<Rightarrow> loader \<Rightarrow> loader" where
  "import_rejected p t s =
     (if p < length (promises s) \<and> promises s ! p = Pending
      then s\<lparr>promises := (promises s)[p := Rejected t]\<rparr>
      else s)"

text \<open>What happens on the single-threaded event loop, one step at a time: a call of
  \<open>loadPdfJs\<close> (by any conversion), or the settling of an import.\<close>

datatype event = Call | ImportFulfilled nat pdfjs string | ImportRejected nat thrown

fun step :: "loader \<Rightarrow> event \<Rightarrow> loader" where
  "step s Call = snd (loadPdfJs s)"
| "step s (ImportFulfilled p lib url) = import_fulfilled p lib url s"
| "step s (ImportRejected p t) = import_rejected p t s"

definition run :: "loader \<Rightarrow> event list \<Rightarrow> loader" where
  "run s es = foldl step s es"

text \<open>What \<open>await\<close> sees, at state \<open>s\<close>, of the value returned by \<open>loadPdfJs\<close>.\<close>

definition observe :: "loader \<Rightarrow> loaded \<Rightarrow> pdfjs outcome" where
  "observe s r = (case r of Handle lib \<Rightarrow> Fulfilled lib | Promise p \<Rightarrow> promises s ! p)"

text \<open>What holds of the module state after any sequence of calls and settlements: nothing
  was loaded yet, or exactly one import was started and \<open>loadPromise\<close> holds its promise,
  which is pending, rejected, or fulfilled with the module that \<open>pdfjsLib\<close> holds.\<close>

definition loader_inv :: "loader \<Rightarrow> bool" where
  "loader_inv s =
     ((pdfjsLib s = None \<and> loadPromise s = None \<and> promises s = []) \<or>
      (loadPromise s = Some 0 \<and>
         ((pdfjsLib s = None \<and> promises s = [Pending]) \<or>
          (pdfjsLib s = None \<and> (\<exists>t. promises s = [Rejected t])) \<or>
          (\<exists>lib. pdfjsLib s = Some lib \<and> promises s = [Fulfilled lib]))))"

text \<open>A first call whose import then fails.\<close>

definition fetch_error :: thrown where
  "fetch_error = ErrorObject (Some ''Failed to fetch dynamically imported module'')"

definition failed_state :: loader where
  "failed_state = run initial [Call, ImportRejected 0 fetch_error]"

section \<open>The file uploader\<close>

definition maxFileSize :: nat where
  "maxFileSize = 20 * 1024 * 1024"

text \<open>The options handed to \<open>useDropzone\<close>.\<close>

record DropzoneOptions =
  multiple :: bool
  accept :: "(string \<times> string list) list"
  maxSize_option :: nat

definition FileUploader_options :: DropzoneOptions where
  "FileUploader_options =
     \<lparr>multiple = False, accept = [(''application/pdf'', [''.pdf''])],
      maxSize_option = maxFileSize\<rparr>"

text \<open>
  The drop filter of the react-dropzone library (third-party, not part of the repository),
  after its documentation: a dropped file is accepted when it matches \<open>accept\<close> and its size
  does not exceed \<open>maxSize\<close>; with \<open>multiple: false\<close>, a drop that leaves more than one
  accepted file is rejected as a whole. The \<open>accept\<close> test is the parameter \<open>matches\<close>.
\<close>

definition useDropzone_accepted ::
  "((string \<times> string list) list \<Rightarrow> File \<Rightarrow> bool) \<Rightarrow> DropzoneOptions \<Rightarrow> File list \<Rightarrow> File list" where
  "useDropzone_accepted matches opts dropped =
     (let acceptedFiles =
        filter (\<lambda>f. matches (accept opts) f \<and> file_size f \<le> maxSize_option opts) dropped
      in if \<not> multiple opts \<and> 1 < length acceptedFiles then [] else acceptedFiles)"

text \<open>\<open>onDrop\<close>: \<open>acceptedFiles[0] || null\<close> is the selected file.\<close>

definition onDrop :: "File list \<Rightarrow> File option" where
  "onDrop acceptedFiles = (case acceptedFiles of [] \<Rightarrow> None | f # rest \<Rightarrow> Some f)"

section \<open>Notions of the specification\<close>

text \<open>"The message contains the substring": some text before, the substring, some text
  after.\<close>

definition contains :: "string \<Rightarrow> string \<Rightarrow> bool" where
  "contains s sub = (\<exists>a b. s = a @ sub @ b)"

text \<open>"The filename ends in \<open>.pdf\<close> (case-insensitive)".\<close>

definition ends_in_pdf :: "string \<Rightarrow> bool" where
  "ends_in_pdf s =
     (\<exists>a p d f. s = a @ [CHR ''.'', p, d, f] \<and>
        (p = CHR ''p'' \<or> p = CHR ''P'') \<and>
        (d = CHR ''d'' \<or> d = CHR ''D'') \<and>
        (f = CHR ''f'' \<or> f = CHR ''F''))"

text \<open>"The input name with its \<open>.pdf\<close> suffix (case-insensitive) replaced by \<open>.png\<close>", as
  the specification words it: the replacement applies to the suffix.\<close>

definition spec_output_name :: "string \<Rightarrow> string" where
  "spec_output_name s =
     (if endsWith (toLowerCase s) ''.pdf'' then take (length s - 4) s @ ''.png'' else s)"


section \<open>Sample inputs\<close>

definition letter_page :: PDFPage where
  "letter_page =
     \<lparr>getViewport = (\<lambda>scale. \<lparr>width = 612 * scale, height = 792 * scale\<rparr>),
      render = (\<lambda>cv vp. Fulfilled ())\<rparr>"

definition one_page_pdf :: PDFDocument where
  "one_page_pdf =
     \<lparr>numPages = 1,
      getPage = (\<lambda>n. if n = 1 then Fulfilled letter_page
                      else Rejected (ErrorObject (Some ''Invalid page request.'')))\<rparr>"

definition good_lib :: pdfjs where
  "good_lib = \<lparr>workerSrc = ''/assets/pdf.worker.min.mjs'',
                getDocument = (\<lambda>data. Fulfilled one_page_pdf)\<rparr>"

text \<open>A library whose parser rejects every document with the given value.\<close>

definition failing_lib :: "thrown \<Rightarrow> pdfjs" where
  "failing_lib t = \<lparr>workerSrc = ''/assets/pdf.worker.min.mjs'',
                     getDocument = (\<lambda>data. Rejected t)\<rparr>"

definition browser :: "pdfjs outcome \<Rightarrow> env" where
  "browser loaded =
     \<lparr>hasWindow = True, hasDocument = True, loadPdfJs_result = loaded,
      arrayBuffer = (\<lambda>f. Fulfilled (file_bytes f)), getContext_2d = True,
      toBlob = (\<lambda>cv t q. Fulfilled (Some [137, 80, 78, 71])),
      createObjectURL = (\<lambda>b. ''blob:http://localhost/1''), now = 1700000000000\<rparr>"

definition server :: env where
  "server = (browser Pending)\<lparr>hasWindow := False, hasDocument := False\<rparr>"

definition pdf_file :: "string \<Rightarrow> string \<Rightarrow> nat \<Rightarrow> File" where
  "pdf_file n t sz =
     \<lparr>file_name = n, file_type = t, file_bytes = replicate sz 0, lastModified = 0\<rparr>"

section \<open>Facts about the string primitives\<close>

lemma startsWith_iff: "startsWith s p \<longleftrightarrow> (\<exists>b. s = p @ b)"
  by (induction s p rule: startsWith.induct) auto

lemma includes_str_iff: "includes_str s sub \<longleftrightarrow> (\<exists>a b. s = a @ sub @ b)"
proof (induction s)
  case Nil
  then show ?case by auto
next
  case (Cons c cs)
  show ?case
  proof
    assume "includes_str (c # cs) sub"
    then consider "startsWith (c # cs) sub" | "includes_str cs sub" by auto
    then show "\<exists>a b. c # cs = a @ sub @ b"
    proof cases
      case 1
      then obtain b where "c # cs = sub @ b" by (auto simp: startsWith_iff)
      then have "c # cs = [] @ sub @ b" by simp
      then show ?thesis by blast
    next
      case 2
      then obtain a b where "cs = a @ sub @ b" using Cons.IH by auto
      then have "c # cs = (c # a) @ sub @ b" by simp
      then show ?thesis by blast
    qed
  next
    assume "\<exists>a b. c # cs = a @ sub @ b"
    then obtain a b where ab: "c # cs = a @ sub @ b" by blast
    show "includes_str (c # cs) sub"
    proof (cases a)
      case Nil
      with ab have "startsWith (c # cs) sub" by (auto simp: startsWith_iff)
      then show ?thesis by simp
    next
      case (Cons x xs)
      with ab have "cs = xs @ sub @ b" by simp
      then have "includes_str cs sub" using Cons.IH by blast
      then show ?thesis by simp
    qed
  qed
qed

lemma includes_str_contains: "includes_str s sub = contains s sub"
  by (simp add: includes_str_iff contains_def)

lemma endsWith_iff: "endsWith s suf \<longleftrightarrow> (\<exists>a. s = a @ suf)"
proof
  assume "endsWith s suf"
  then have "s = take (length s - length suf) s @ suf"
    by (metis append_take_drop_id endsWith_def)
  then show "\<exists>a. s = a @ suf" ..
next
  assume "\<exists>a. s = a @ suf"
  then show "endsWith s suf" by (auto simp: endsWith_def)
qed

lemma lower_letter:
  assumes "(of_char k :: nat) = m" "97 \<le> m" "m \<le> 122"
  shows "toLowerCase_unit c = k \<longleftrightarrow> (of_char c :: nat) = m \<or> (of_char c :: nat) = m - 32"
proof -
  have lt: "(of_char c :: nat) < 256" by (rule nat_of_char_less_256)
  have "toLowerCase_unit c = k \<longleftrightarrow> (of_char (toLowerCase_unit c) :: nat) = m"
    using assms(1) by (metis of_char_eq_iff)
  also have "\<dots> \<longleftrightarrow> (of_char c :: nat) = m \<or> (of_char c :: nat) = m - 32"
    using lt assms(2,3) by (auto simp: toLowerCase_unit_def Let_def)
  finally show ?thesis .
qed

lemma canon_letter:
  assumes "(of_char k :: nat) = m" "97 \<le> m" "m \<le> 122"
  shows "canonicalize c = canonicalize k \<longleftrightarrow> (of_char c :: nat) = m \<or> (of_char c :: nat) = m - 32"
proof -
  have lt: "(of_char c :: nat) < 256" by (rule nat_of_char_less_256)
  have ck: "(of_char (canonicalize k) :: nat) = m - 32"
    using assms by (simp add: canonicalize_def Let_def)
  have "canonicalize c = canonicalize k \<longleftrightarrow> (of_char (canonicalize c) :: nat) = m - 32"
    using ck by (metis of_char_eq_iff)
  also have "\<dots> \<longleftrightarrow> (of_char c :: nat) = m \<or> (of_char c :: nat) = m - 32"
    using lt assms(2,3) by (auto simp: canonicalize_def Let_def)
  finally show ?thesis .
qed

lemma lower_dot: "toLowerCase_unit c = CHR ''.'' \<longleftrightarrow> c = CHR ''.''"
proof -
  have lt: "(of_char c :: nat) < 256" by (rule nat_of_char_less_256)
  have "toLowerCase_unit c = CHR ''.'' \<longleftrightarrow> (of_char (toLowerCase_unit c) :: nat) = of_char (CHR ''.'')"
    by (simp only: of_char_eq_iff)
  also have "\<dots> \<longleftrightarrow> (of_char c :: nat) = of_char (CHR ''.'')"
    using lt by (auto simp: toLowerCase_unit_def Let_def)
  also have "\<dots> \<longleftrightarrow> c = CHR ''.''" by (simp only: of_char_eq_iff)
  finally show ?thesis .
qed

lemma canon_dot: "canonicalize c = canonicalize (CHR ''.'') \<longleftrightarrow> c = CHR ''.''"
proof -
  have lt: "(of_char c :: nat) < 256" by (rule nat_of_char_less_256)
  have cd: "canonicalize (CHR ''.'') = CHR ''.''" by (simp add: canonicalize_def)
  have "canonicalize c = CHR ''.'' \<longleftrightarrow> (of_char (canonicalize c) :: nat) = of_char (CHR ''.'')"
    by (simp only: of_char_eq_iff)
  also have "\<dots> \<longleftrightarrow> (of_char c :: nat) = of_char (CHR ''.'')"
    using lt by (auto simp: canonicalize_def Let_def)
  also have "\<dots> \<longleftrightarrow> c = CHR ''.''" by (simp only: of_char_eq_iff)
  finally show ?thesis using cd by simp
qed

lemma of_char_eq_nat: "n < 256 \<Longrightarrow> ((of_char c :: nat) = n) = (c = char_of n)"
proof
  assume "n < 256" "(of_char c :: nat) = n"
  then have "char_of (of_char c :: nat) = char_of n" by simp
  then show "c = char_of n" by simp
next
  assume "n < 256" "c = char_of n"
  then show "(of_char c :: nat) = n" by simp
qed

lemma char_codes:
  "char_of (112::nat) = CHR ''p''" "char_of (80::nat) = CHR ''P''"
  "char_of (100::nat) = CHR ''d''" "char_of (68::nat) = CHR ''D''"
  "char_of (102::nat) = CHR ''f''" "char_of (70::nat) = CHR ''F''"
  by code_simp+

lemma lower_p: "toLowerCase_unit c = CHR ''p'' \<longleftrightarrow> c = CHR ''p'' \<or> c = CHR ''P''"
  by (subst lower_letter [where m = 112]) (simp_all add: of_char_eq_nat char_codes)
lemma lower_d: "toLowerCase_unit c = CHR ''d'' \<longleftrightarrow> c = CHR ''d'' \<or> c = CHR ''D''"
  by (subst lower_letter [where m = 100]) (simp_all add: of_char_eq_nat char_codes)
lemma lower_f: "toLowerCase_unit c = CHR ''f'' \<longleftrightarrow> c = CHR ''f'' \<or> c = CHR ''F''"
  by (subst lower_letter [where m = 102]) (simp_all add: of_char_eq_nat char_codes)
lemma canon_p: "canonicalize c = canonicalize (CHR ''p'') \<longleftrightarrow> c = CHR ''p'' \<or> c = CHR ''P''"
  by (subst canon_letter [where m = 112]) (simp_all add: of_char_eq_nat char_codes)
lemma canon_d: "canonicalize c = canonicalize (CHR ''d'') \<longleftrightarrow> c = CHR ''d'' \<or> c = CHR ''D''"
  by (subst canon_letter [where m = 100]) (simp_all add: of_char_eq_nat char_codes)
lemma canon_f: "canonicalize c = canonicalize (CHR ''f'') \<longleftrightarrow> c = CHR ''f'' \<or> c = CHR ''F''"
  by (subst canon_letter [where m = 102]) (simp_all add: of_char_eq_nat char_codes)

lemma length_four: "length d = 4 \<Longrightarrow> \<exists>c0 c1 c2 c3. d = [c0, c1, c2, c3]"
  by (auto simp: numeral_eq_Suc length_Suc_conv)

lemma last_four:
  assumes "4 \<le> length s"
  shows "\<exists>a c0 c1 c2 c3. s = a @ [c0, c1, c2, c3] \<and> drop (length s - 4) s = [c0, c1, c2, c3]"
proof -
  let ?d = "drop (length s - 4) s"
  have "length ?d = 4" using assms by simp
  then obtain c0 c1 c2 c3 where d: "?d = [c0, c1, c2, c3]"
    using length_four by blast
  have "s = take (length s - 4) s @ ?d" by simp
  with d have "s = take (length s - 4) s @ [c0, c1, c2, c3]" by simp
  with d show ?thesis by blast
qed

lemma matches_pdf_regex_iff: "matches_pdf_regex s \<longleftrightarrow> ends_in_pdf s"
proof
  assume m: "matches_pdf_regex s"
  then have "4 \<le> length s" by (simp add: matches_pdf_regex_def)
  from last_four [OF this] obtain a c0 c1 c2 c3 where
    s: "s = a @ [c0, c1, c2, c3]" and d: "drop (length s - 4) s = [c0, c1, c2, c3]" by blast
  from m d have "canonicalize c0 = canonicalize (CHR ''.'') \<and> canonicalize c1 = canonicalize (CHR ''p'')
      \<and> canonicalize c2 = canonicalize (CHR ''d'') \<and> canonicalize c3 = canonicalize (CHR ''f'')"
    by (simp add: matches_pdf_regex_def)
  then show "ends_in_pdf s"
    unfolding ends_in_pdf_def canon_dot canon_p canon_d canon_f using s by blast
next
  assume "ends_in_pdf s"
  then obtain a p d f where s: "s = a @ [CHR ''.'', p, d, f]"
    and c: "canonicalize p = canonicalize (CHR ''p'')" "canonicalize d = canonicalize (CHR ''d'')"
       "canonicalize f = canonicalize (CHR ''f'')"
    unfolding ends_in_pdf_def canon_p canon_d canon_f by blast
  show "matches_pdf_regex s"
    unfolding matches_pdf_regex_def using s c by simp
qed

lemma endsWith_lower_iff: "endsWith (toLowerCase s) ''.pdf'' \<longleftrightarrow> ends_in_pdf s"
proof
  assume m: "endsWith (toLowerCase s) ''.pdf''"
  then have "4 \<le> length s" by (simp add: endsWith_def toLowerCase_def)
  from last_four [OF this] obtain a c0 c1 c2 c3 where
    s: "s = a @ [c0, c1, c2, c3]" and d: "drop (length s - 4) s = [c0, c1, c2, c3]" by blast
  have len: "length ''.pdf'' = (4::nat)" by simp
  from m have "drop (length (map toLowerCase_unit s) - length ''.pdf'') (map toLowerCase_unit s) = ''.pdf''"
    by (simp only: endsWith_def toLowerCase_def)
  then have "map toLowerCase_unit (drop (length s - 4) s) = ''.pdf''"
    by (simp only: length_map drop_map len)
  with d have "toLowerCase_unit c0 = CHR ''.'' \<and> toLowerCase_unit c1 = CHR ''p''
      \<and> toLowerCase_unit c2 = CHR ''d'' \<and> toLowerCase_unit c3 = CHR ''f''"
    by simp
  then show "ends_in_pdf s"
    unfolding ends_in_pdf_def lower_dot lower_p lower_d lower_f using s by blast
next
  assume "ends_in_pdf s"
  then obtain a p d f where s: "s = a @ [CHR ''.'', p, d, f]"
    and c: "toLowerCase_unit p = CHR ''p''" "toLowerCase_unit d = CHR ''d''"
       "toLowerCase_unit f = CHR ''f''"
    unfolding ends_in_pdf_def lower_p lower_d lower_f by blast
  have "toLowerCase_unit (CHR ''.'') = CHR ''.''" by (simp add: lower_dot)
  then show "endsWith (toLowerCase s) ''.pdf''"
    unfolding endsWith_def toLowerCase_def using s c by simp
qed

section \<open>Facts about the converter\<close>

lemmas io_defs = bind_def invoke_def ret_def throw_def try_catch_def catch_block_def blob_callback_def

lemmas spec_notions = includes_str_contains [symmetric] endsWith_lower_iff [symmetric]

lemma convert_valid:
  assumes "hasWindow e" "hasDocument e"
    and "includes_str (file_type f) ''pdf'' \<or> endsWith (toLowerCase (file_name f)) ''.pdf''"
    and "file_size f \<le> maxSize"
  shows "convertPdfToImage e f = try_catch (try_block e f) catch_block []"
  using assms by (auto simp: convertPdfToImage_def)

lemma try_block_trace: "\<exists>cs. snd (try_block e f []) = LoadPdfJs # cs"
  by (simp add: try_block_def io_defs Let_def split: outcome.splits option.splits prod.splits)

lemma try_catch_trace: "\<exists>cs. snd (try_catch (try_block e f) catch_block []) = LoadPdfJs # cs"
  using try_block_trace [of e f]
  by (auto simp: try_catch_def catch_block_def ret_def throw_def
      split: outcome.splits prod.splits option.splits)



lemma convert_rejected:
  assumes "hasWindow e" "hasDocument e"
    and "includes_str (file_type f) ''pdf'' \<or> endsWith (toLowerCase (file_name f)) ''.pdf''"
    and "file_size f \<le> maxSize"
    and "try_block e f [] = (Rejected t, tr)"
  shows "convertPdfToImage e f = catch_block t tr"
  using assms by (simp add: convert_valid try_catch_def)

lemma catch_block_string:
  "errorMessage_of t = Some m \<Longrightarrow> catch_block t tr = (Fulfilled (failure (classify m)), tr)"
  by (simp add: catch_block_def ret_def)


lemma sample_fields:
  "file_size (pdf_file n t sz) = sz"
  "file_name (pdf_file n t sz) = n"
  "file_type (pdf_file n t sz) = t"
  "hasWindow (browser l) = True"
  "hasDocument (browser l) = True"
  "loadPdfJs_result (browser l) = l"
  "arrayBuffer (browser l) f = Fulfilled (file_bytes f)"
  "getContext_2d (browser l) = True"
  "hasWindow server = False"
  by (simp_all add: file_size_def pdf_file_def browser_def server_def)

lemma sample_lower:
  "toLowerCase ''Resume.PDF'' = ''resume.pdf''"
  "toLowerCase ''notes.txt'' = ''notes.txt''"
  "toLowerCase ''big.pdf'' = ''big.pdf''"
  "toLowerCase ''big.txt'' = ''big.txt''"
  "toLowerCase ''resume'' = ''resume''"
  "toLowerCase ''scan.bin'' = ''scan.bin''"
  by code_simp+

section \<open>Input validation\<close>

text \<open>
  Claim C2. The three rules are checked in the order browser context, format (the declared
  type contains \<open>pdf\<close> or the name ends in \<open>.pdf\<close>, in any case), size at most 50 MiB. The
  first rule that fails gives the result, \<open>{imageUrl: "", file: null, error}\<close> with that
  rule's message, whatever the later rules would say, and no call into the library or the
  browser is made. When all three hold the call is the \<open>try\<close> block under its \<open>catch\<close>,
  whose first call is \<open>loadPdfJs\<close>.
\<close>

theorem validation_order:
  "(\<not> (hasWindow e \<and> hasDocument e) \<longrightarrow>
      convertPdfToImage e f =
        (Fulfilled \<lparr>imageUrl = '''', file_field = None,
                    error = Some ''PDF conversion only works in the browser.''\<rparr>, [])) \<and>
   (hasWindow e \<and> hasDocument e \<and>
      \<not> (contains (file_type f) ''pdf'' \<or> ends_in_pdf (file_name f)) \<longrightarrow>
      convertPdfToImage e f =
        (Fulfilled \<lparr>imageUrl = '''', file_field = None,
                    error = Some ''File must be a PDF document.''\<rparr>, [])) \<and>
   (hasWindow e \<and> hasDocument e \<and>
      (contains (file_type f) ''pdf'' \<or> ends_in_pdf (file_name f)) \<and>
      50 * 1024 * 1024 < file_size f \<longrightarrow>
      convertPdfToImage e f =
        (Fulfilled \<lparr>imageUrl = '''', file_field = None,
                    error = Some ''PDF file is too large. Maximum size is 50MB.''\<rparr>, [])) \<and>
   (hasWindow e \<and> hasDocument e \<and>
      (contains (file_type f) ''pdf'' \<or> ends_in_pdf (file_name f)) \<and>
      file_size f \<le> 50 * 1024 * 1024 \<longrightarrow>
      convertPdfToImage e f = try_catch (try_block e f) catch_block [] \<and>
      (\<exists>cs. snd (convertPdfToImage e f) = LoadPdfJs # cs))"
  unfolding spec_notions
proof (intro conjI impI)
  assume "\<not> (hasWindow e \<and> hasDocument e)"
  then show "convertPdfToImage e f =
        (Fulfilled \<lparr>imageUrl = '''', file_field = None,
                    error = Some ''PDF conversion only works in the browser.''\<rparr>, [])"
    by (auto simp: convertPdfToImage_def failure_def)
next
  assume "hasWindow e \<and> hasDocument e \<and>
      \<not> (includes_str (file_type f) ''pdf'' \<or> endsWith (toLowerCase (file_name f)) ''.pdf'')"
  then show "convertPdfToImage e f =
        (Fulfilled \<lparr>imageUrl = '''', file_field = None,
                    error = Some ''File must be a PDF document.''\<rparr>, [])"
    by (simp add: convertPdfToImage_def failure_def)
next
  assume "hasWindow e \<and> hasDocument e \<and>
      (includes_str (file_type f) ''pdf'' \<or> endsWith (toLowerCase (file_name f)) ''.pdf'') \<and>
      50 * 1024 * 1024 < file_size f"
  then show "convertPdfToImage e f =
        (Fulfilled \<lparr>imageUrl = '''', file_field = None,
                    error = Some ''PDF file is too large. Maximum size is 50MB.''\<rparr>, [])"
    by (auto simp: convertPdfToImage_def failure_def maxSize_def)
next
  assume a: "hasWindow e \<and> hasDocument e \<and>
      (includes_str (file_type f) ''pdf'' \<or> endsWith (toLowerCase (file_name f)) ''.pdf'') \<and>
      file_size f \<le> 50 * 1024 * 1024"
  then have v: "convertPdfToImage e f = try_catch (try_block e f) catch_block []"
    by (intro convert_valid) (simp_all add: maxSize_def)
  then show "convertPdfToImage e f = try_catch (try_block e f) catch_block []" .
  show "\<exists>cs. snd (convertPdfToImage e f) = LoadPdfJs # cs"
    unfolding v by (rule try_catch_trace)
qed

theorem validation_order_witness:
  "convertPdfToImage server (pdf_file ''Resume.PDF'' ''application/pdf'' 4) =
     (Fulfilled \<lparr>imageUrl = '''', file_field = None,
                 error = Some ''PDF conversion only works in the browser.''\<rparr>, []) \<and>
   convertPdfToImage (browser (Fulfilled good_lib)) (pdf_file ''notes.txt'' ''text/plain'' 4) =
     (Fulfilled \<lparr>imageUrl = '''', file_field = None,
                 error = Some ''File must be a PDF document.''\<rparr>, []) \<and>
   convertPdfToImage (browser (Fulfilled good_lib))
       (pdf_file ''big.pdf'' ''application/pdf'' 52428801) =
     (Fulfilled \<lparr>imageUrl = '''', file_field = None,
                 error = Some ''PDF file is too large. Maximum size is 50MB.''\<rparr>, []) \<and>
   (\<exists>cs. snd (convertPdfToImage (browser (Fulfilled good_lib))
       (pdf_file ''Resume.PDF'' ''application/pdf'' 4)) = LoadPdfJs # cs)"
proof -
  let ?b = "browser (Fulfilled good_lib)"
  let ?ok = "pdf_file ''Resume.PDF'' ''application/pdf'' 4"
  have h: "hasWindow ?b \<and> hasDocument ?b \<and>
      (contains (file_type ?ok) ''pdf'' \<or> ends_in_pdf (file_name ?ok)) \<and>
      file_size ?ok \<le> 50 * 1024 * 1024"
    by (simp add: spec_notions sample_fields)
  have last: "\<exists>cs. snd (convertPdfToImage ?b ?ok) = LoadPdfJs # cs"
    using validation_order [of ?b ?ok] h by blast
  show ?thesis
    using validation_order [of server ?ok]
      validation_order [of ?b "pdf_file ''notes.txt'' ''text/plain'' 4"]
      validation_order [of ?b "pdf_file ''big.pdf'' ''application/pdf'' 52428801"]
      last
    by (simp add: spec_notions sample_fields sample_lower endsWith_def)
qed

text \<open>
  Claim C6, as stated: every input larger than 50 MiB gets the size-limit error. A file of
  50 MiB + 1 byte named \<open>big.txt\<close> with type \<open>text/plain\<close> gets the format error instead:
  the format rule is checked before the size rule.
\<close>

theorem size_limit_counterexample:
  "50 * 1024 * 1024 < file_size (pdf_file ''big.txt'' ''text/plain'' 52428801) \<and>
   convertPdfToImage (browser (Fulfilled good_lib)) (pdf_file ''big.txt'' ''text/plain'' 52428801) =
     (Fulfilled \<lparr>imageUrl = '''', file_field = None,
                 error = Some ''File must be a PDF document.''\<rparr>, []) \<and>
   convertPdfToImage (browser (Fulfilled good_lib)) (pdf_file ''big.txt'' ''text/plain'' 52428801) \<noteq>
     (Fulfilled \<lparr>imageUrl = '''', file_field = None,
                 error = Some ''PDF file is too large. Maximum size is 50MB.''\<rparr>, [])"
  by (simp add: convertPdfToImage_def failure_def sample_fields sample_lower endsWith_def)

text \<open>
  Claim C6, amended. In a browser context, an input that passes the format rule and is
  larger than 50 MiB gets the size-limit error, whatever its bytes and whatever the library
  would do, and no call is made.
\<close>

theorem size_limit_after_format:
  assumes "hasWindow e" and "hasDocument e"
    and "contains (file_type f) ''pdf'' \<or> ends_in_pdf (file_name f)"
    and "50 * 1024 * 1024 < file_size f"
  shows "convertPdfToImage e f =
     (Fulfilled \<lparr>imageUrl = '''', file_field = None,
                 error = Some ''PDF file is too large. Maximum size is 50MB.''\<rparr>, [])"
  using assms unfolding spec_notions
  by (auto simp: convertPdfToImage_def failure_def maxSize_def)

theorem size_limit_after_format_witness:
  "convertPdfToImage (browser (Fulfilled good_lib))
     (pdf_file ''big.pdf'' ''application/pdf'' 52428801) =
     (Fulfilled \<lparr>imageUrl = '''', file_field = None,
                 error = Some ''PDF file is too large. Maximum size is 50MB.''\<rparr>, [])"
  using size_limit_after_format
    [of "browser (Fulfilled good_lib)" "pdf_file ''big.pdf'' ''application/pdf'' 52428801"]
  by (simp add: spec_notions sample_fields)

text \<open>
  Claim C9. The media-type test of the format rule is a case-sensitive search for \<open>pdf\<close>
  in the declared type. A file whose type contains \<open>pdf\<close> passes the format rule whatever
  its name: in a browser context the result is decided by the size rule and the
  conversion. A file whose type does not contain the lower-case \<open>pdf\<close> and whose name does
  not end in \<open>.pdf\<close> (in any case) gets the format error. \<open>text/pdfish\<close> contains \<open>pdf\<close>;
  \<open>application/PDF\<close> does not.
\<close>

theorem format_rule_case_sensitive:
  "(hasWindow e \<and> hasDocument e \<and> contains (file_type f) ''pdf'' \<longrightarrow>
      convertPdfToImage e f =
        (if 50 * 1024 * 1024 < file_size f
         then (Fulfilled \<lparr>imageUrl = '''', file_field = None,
                 error = Some ''PDF file is too large. Maximum size is 50MB.''\<rparr>, [])
         else try_catch (try_block e f) catch_block [])) \<and>
   (hasWindow e \<and> hasDocument e \<and>
      \<not> contains (file_type f) ''pdf'' \<and> \<not> ends_in_pdf (file_name f) \<longrightarrow>
      convertPdfToImage e f =
        (Fulfilled \<lparr>imageUrl = '''', file_field = None,
                    error = Some ''File must be a PDF document.''\<rparr>, [])) \<and>
   contains ''text/pdfish'' ''pdf'' \<and> \<not> contains ''application/PDF'' ''pdf''"
  unfolding spec_notions
  by (simp add: convertPdfToImage_def failure_def maxSize_def)

theorem format_rule_case_sensitive_witness:
  "convertPdfToImage (browser (Fulfilled good_lib)) (pdf_file ''scan.bin'' ''text/pdfish'' 4) =
     try_catch (try_block (browser (Fulfilled good_lib)) (pdf_file ''scan.bin'' ''text/pdfish'' 4))
       catch_block [] \<and>
   convertPdfToImage (browser (Fulfilled good_lib)) (pdf_file ''notes.txt'' ''application/PDF'' 4) =
     (Fulfilled \<lparr>imageUrl = '''', file_field = None,
                 error = Some ''File must be a PDF document.''\<rparr>, [])"
  using format_rule_case_sensitive
      [of "browser (Fulfilled good_lib)" "pdf_file ''scan.bin'' ''text/pdfish'' 4"]
    format_rule_case_sensitive
      [of "browser (Fulfilled good_lib)" "pdf_file ''notes.txt'' ''application/PDF'' 4"]
  by (simp add: spec_notions sample_fields sample_lower endsWith_def)

section \<open>Error classification\<close>

lemma classify_contains:
  "classify m =
     (if contains m ''Invalid PDF''
      then ''The uploaded file appears to be corrupted or is not a valid PDF.''
      else if contains m ''password''
      then ''Password-protected PDFs are not supported.''
      else if contains m ''worker''
      then ''PDF processing worker failed to load. Please try again.''
      else m)"
  by (simp add: classify_def includes_str_contains)

lemma classify_default:
  "classify m = ''Failed to convert PDF'' \<longleftrightarrow> m = ''Failed to convert PDF''"
proof
  assume "classify m = ''Failed to convert PDF''"
  then show "m = ''Failed to convert PDF''"
    by (simp add: classify_def split: if_splits)
next
  assume "m = ''Failed to convert PDF''"
  then show "classify m = ''Failed to convert PDF''"
    by (simp add: classify_def)
qed


lemma parse_failure:
  assumes "loadPdfJs_result e = Fulfilled lib" and "arrayBuffer e f = Fulfilled buf"
    and "getDocument lib buf = Rejected err"
  shows "try_block e f [] = (Rejected err, [LoadPdfJs, ArrayBuffer, GetDocument])"
  using assms by (simp add: try_block_def io_defs)

lemma sample_fields_more:
  "file_bytes (pdf_file n t sz) = replicate sz 0"
  "getDocument (failing_lib err) b = Rejected err"
  "errorMessage_of (ErrorObject m) = m"
  by (simp_all add: pdf_file_def failing_lib_def errorMessage_of_def)

lemma sample_parse_failure:
  "try_block (browser (Fulfilled (failing_lib err))) (pdf_file n t sz) [] =
     (Rejected err, [LoadPdfJs, ArrayBuffer, GetDocument])"
  by (rule parse_failure [where lib = "failing_lib err" and buf = "replicate sz 0"])
    (simp_all add: sample_fields sample_fields_more)

text \<open>
  Whatever the \<open>try\<close> block throws with a string message is caught, and the returned error
  text is chosen from that message in this precedence: it contains \<open>Invalid PDF\<close>, the
  corrupted-file text; otherwise it contains \<open>password\<close>, the password text; otherwise it
  contains \<open>worker\<close>, the worker text; otherwise the message itself.
\<close>

lemma catch_block_precedence:
  assumes "errorMessage_of err = Some m"
  shows "catch_block err tr =
     (Fulfilled \<lparr>imageUrl = '''', file_field = None,
        error = Some
          (if contains m ''Invalid PDF''
           then ''The uploaded file appears to be corrupted or is not a valid PDF.''
           else if contains m ''password''
           then ''Password-protected PDFs are not supported.''
           else if contains m ''worker''
           then ''PDF processing worker failed to load. Please try again.''
           else m)\<rparr>, tr)"
  using assms by (simp add: catch_block_string failure_def classify_contains)

text \<open>
  Claim C5. The three substring tests and their precedence are as the claim says
  (\<open>catch_block_precedence\<close>), but its last clause fails on the code: \<open>Failed to convert PDF\<close>
  is only the initial value of \<open>errorMessage\<close>, overwritten on both branches of the
  \<open>instanceof\<close> test, so it is never the text returned for a missing message. When the
  parser rejects with \<open>new Error()\<close>, whose message is empty, the returned error is the
  empty string; when it rejects with an \<open>Error\<close> whose message is \<open>undefined\<close>, the catch
  block throws and the call is rejected.
\<close>

theorem classifier_fallback_unused:
  "convertPdfToImage (browser (Fulfilled (failing_lib (ErrorObject (Some '''')))))
     (pdf_file ''Resume.PDF'' ''application/pdf'' 4) =
     (Fulfilled \<lparr>imageUrl = '''', file_field = None, error = Some ''''\<rparr>,
      [LoadPdfJs, ArrayBuffer, GetDocument]) \<and>
   convertPdfToImage (browser (Fulfilled (failing_lib (ErrorObject (Some '''')))))
     (pdf_file ''Resume.PDF'' ''application/pdf'' 4) \<noteq>
     (Fulfilled \<lparr>imageUrl = '''', file_field = None, error = Some ''Failed to convert PDF''\<rparr>,
      [LoadPdfJs, ArrayBuffer, GetDocument]) \<and>
   convertPdfToImage (browser (Fulfilled (failing_lib (ErrorObject None))))
     (pdf_file ''Resume.PDF'' ''application/pdf'' 4) =
     (Rejected type_error, [LoadPdfJs, ArrayBuffer, GetDocument])"
  by (simp add: convert_rejected [OF _ _ _ _ sample_parse_failure] sample_fields maxSize_def
      catch_block_def ret_def throw_def classify_def failure_def errorMessage_of_def)

theorem classifier_fallback_unused_witness:
  "fst (convertPdfToImage (browser (Fulfilled (failing_lib (ErrorObject (Some '''')))))
       (pdf_file ''Resume.PDF'' ''application/pdf'' 4)) =
     Fulfilled \<lparr>imageUrl = '''', file_field = None, error = Some ''''\<rparr>"
  using classifier_fallback_unused by simp

text \<open>
  Claim C8, as stated: a parse failure whose message contains \<open>password\<close> gives the password
  text. The message \<open>Invalid PDF structure: password entry unreadable\<close> contains \<open>password\<close>
  and gives the corrupted-file text: \<open>Invalid PDF\<close> is tested first.
\<close>

theorem password_message_counterexample:
  "contains ''Invalid PDF structure: password entry unreadable'' ''password'' \<and>
   convertPdfToImage
     (browser (Fulfilled (failing_lib
        (ErrorObject (Some ''Invalid PDF structure: password entry unreadable'')))))
     (pdf_file ''Resume.PDF'' ''application/pdf'' 4) =
     (Fulfilled \<lparr>imageUrl = '''', file_field = None,
        error = Some ''The uploaded file appears to be corrupted or is not a valid PDF.''\<rparr>,
      [LoadPdfJs, ArrayBuffer, GetDocument]) \<and>
   fst (convertPdfToImage
     (browser (Fulfilled (failing_lib
        (ErrorObject (Some ''Invalid PDF structure: password entry unreadable'')))))
     (pdf_file ''Resume.PDF'' ''application/pdf'' 4)) \<noteq>
     Fulfilled \<lparr>imageUrl = '''', file_field = None,
        error = Some ''Password-protected PDFs are not supported.''\<rparr>"
  by (simp add: convert_rejected [OF _ _ _ _ sample_parse_failure] spec_notions sample_fields
      maxSize_def catch_block_def ret_def classify_def failure_def errorMessage_of_def)

text \<open>
  Claim C8, amended. For every document that reaches the parser and whose parse failure
  message contains \<open>password\<close> and does not contain \<open>Invalid PDF\<close>, the result is
  \<open>{imageUrl: "", file: null, error: "Password-protected PDFs are not supported."}\<close>.
\<close>

theorem password_message:
  assumes "hasWindow e" and "hasDocument e"
    and "contains (file_type f) ''pdf'' \<or> ends_in_pdf (file_name f)"
    and "file_size f \<le> 50 * 1024 * 1024"
    and "loadPdfJs_result e = Fulfilled lib" and "arrayBuffer e f = Fulfilled buf"
    and "getDocument lib buf = Rejected err"
    and "errorMessage_of err = Some m"
    and "contains m ''password''"
    and "\<not> contains m ''Invalid PDF''"
  shows "convertPdfToImage e f =
     (Fulfilled \<lparr>imageUrl = '''', file_field = None,
        error = Some ''Password-protected PDFs are not supported.''\<rparr>,
      [LoadPdfJs, ArrayBuffer, GetDocument])"
proof -
  have "convertPdfToImage e f = catch_block err [LoadPdfJs, ArrayBuffer, GetDocument]"
    using assms(1-4) parse_failure [OF assms(5-7)]
    by (intro convert_rejected) (simp_all add: spec_notions maxSize_def)
  with assms(8-10) show ?thesis
    by (simp add: catch_block_precedence)
qed

theorem password_message_witness:
  "convertPdfToImage (browser (Fulfilled (failing_lib (ErrorObject (Some ''No password given'')))))
     (pdf_file ''Resume.PDF'' ''application/pdf'' 4) =
     (Fulfilled \<lparr>imageUrl = '''', file_field = None,
        error = Some ''Password-protected PDFs are not supported.''\<rparr>,
      [LoadPdfJs, ArrayBuffer, GetDocument])"
  using password_message
    [of "browser (Fulfilled (failing_lib (ErrorObject (Some ''No password given''))))"
        "pdf_file ''Resume.PDF'' ''application/pdf'' 4"
        "failing_lib (ErrorObject (Some ''No password given''))"
        "replicate 4 0" "ErrorObject (Some ''No password given'')" "''No password given''"]
  by (simp add: spec_notions sample_fields sample_fields_more)

section \<open>A successful conversion\<close>

lemma replace_pdf_regex_ends:
  "replace_pdf_regex s = (if ends_in_pdf s then take (length s - 4) s else s)"
  by (simp add: replace_pdf_regex_def matches_pdf_regex_iff)

lemma try_block_success:
  assumes "loadPdfJs_result e = Fulfilled lib" and "arrayBuffer e f = Fulfilled buf"
    and "getDocument lib buf = Fulfilled pdf" and "getPage pdf 1 = Fulfilled page"
    and "getContext_2d e"
    and "render page (setup_canvas (getViewport page 2)) (getViewport page 2) = Fulfilled ()"
    and "toBlob e (setup_canvas (getViewport page 2)) ''image/png'' 90 = Fulfilled (Some blob)"
  shows "try_block e f [] =
     (Fulfilled \<lparr>imageUrl = createObjectURL e blob,
        file_field = Some \<lparr>file_name = replace_pdf_regex (file_name f) @ ''.png'',
          file_type = ''image/png'', file_bytes = blob, lastModified = now e\<rparr>,
        error = None\<rparr>,
      [LoadPdfJs, ArrayBuffer, GetDocument, GetPage 1, GetViewport, CreateCanvas,
       GetContext, Render, ToBlob, CreateObjectURL])"
  using assms by (simp add: try_block_def io_defs Let_def)

lemma sample_success:
  "convertPdfToImage (browser (Fulfilled good_lib)) (pdf_file n ''application/pdf'' 4) =
     (Fulfilled \<lparr>imageUrl = ''blob:http://localhost/1'',
        file_field = Some \<lparr>file_name = replace_pdf_regex n @ ''.png'',
          file_type = ''image/png'', file_bytes = [137, 80, 78, 71],
          lastModified = 1700000000000\<rparr>,
        error = None\<rparr>,
      [LoadPdfJs, ArrayBuffer, GetDocument, GetPage 1, GetViewport, CreateCanvas,
       GetContext, Render, ToBlob, CreateObjectURL])"
proof -
  let ?e = "browser (Fulfilled good_lib)" and ?f = "pdf_file n ''application/pdf'' 4"
  have "convertPdfToImage ?e ?f = try_catch (try_block ?e ?f) catch_block []"
    by (rule convert_valid) (simp_all add: sample_fields maxSize_def)
  moreover have "try_block ?e ?f [] =
     (Fulfilled \<lparr>imageUrl = createObjectURL ?e [137, 80, 78, 71],
        file_field = Some \<lparr>file_name = replace_pdf_regex (file_name ?f) @ ''.png'',
          file_type = ''image/png'', file_bytes = [137, 80, 78, 71], lastModified = now ?e\<rparr>,
        error = None\<rparr>,
      [LoadPdfJs, ArrayBuffer, GetDocument, GetPage 1, GetViewport, CreateCanvas,
       GetContext, Render, ToBlob, CreateObjectURL])"
    by (rule try_block_success
        [where lib = good_lib and buf = "replicate 4 0" and pdf = one_page_pdf and page = letter_page])
      (simp_all add: sample_fields sample_fields_more browser_def good_lib_def one_page_pdf_def
        letter_page_def)
  ultimately show ?thesis
    by (simp add: try_catch_def sample_fields browser_def)
qed

lemma sample_names:
  "replace_pdf_regex ''Resume.PDF'' = ''Resume''"
  "replace_pdf_regex ''resume'' = ''resume''"
  by code_simp+

text \<open>
  Claim C7, as stated: the output name is the input name with its trailing \<open>.pdf\<close> replaced
  by \<open>.png\<close>. The file \<open>resume\<close> of type \<open>application/pdf\<close> passes validation and has no
  such suffix to replace, yet the output is named \<open>resume.png\<close>.
\<close>

theorem output_name_counterexample:
  "convertPdfToImage (browser (Fulfilled good_lib)) (pdf_file ''resume'' ''application/pdf'' 4) =
     (Fulfilled \<lparr>imageUrl = ''blob:http://localhost/1'',
        file_field = Some \<lparr>file_name = ''resume.png'',
          file_type = ''image/png'', file_bytes = [137, 80, 78, 71],
          lastModified = 1700000000000\<rparr>,
        error = None\<rparr>,
      [LoadPdfJs, ArrayBuffer, GetDocument, GetPage 1, GetViewport, CreateCanvas,
       GetContext, Render, ToBlob, CreateObjectURL]) \<and>
   spec_output_name ''resume'' = ''resume'' \<and>
   ''resume.png'' \<noteq> spec_output_name ''resume''"
  by (simp add: sample_success sample_names spec_output_name_def sample_lower endsWith_def)

text \<open>
  Claim C7, amended. When validation passes and loading, reading, parsing, page retrieval,
  rendering and encoding all succeed, the result has no error, its file has media type
  \<open>image/png\<close>, the encoded bytes as content and the current time as modification time, and
  its name is the input name, without its trailing \<open>.pdf\<close> (in any case) when it has one,
  followed by \<open>.png\<close>; \<open>imageUrl\<close> is the object URL created for the encoded bytes.
\<close>

theorem output_file:
  assumes "hasWindow e" and "hasDocument e"
    and "contains (file_type f) ''pdf'' \<or> ends_in_pdf (file_name f)"
    and "file_size f \<le> 50 * 1024 * 1024"
    and "loadPdfJs_result e = Fulfilled lib" and "arrayBuffer e f = Fulfilled buf"
    and "getDocument lib buf = Fulfilled pdf" and "getPage pdf 1 = Fulfilled page"
    and "getContext_2d e"
    and "render page (setup_canvas (getViewport page 2)) (getViewport page 2) = Fulfilled ()"
    and "toBlob e (setup_canvas (getViewport page 2)) ''image/png'' 90 = Fulfilled (Some blob)"
  shows "convertPdfToImage e f =
     (Fulfilled \<lparr>imageUrl = createObjectURL e blob,
        file_field = Some
          \<lparr>file_name =
             (if ends_in_pdf (file_name f)
              then take (length (file_name f) - 4) (file_name f) else file_name f) @ ''.png'',
           file_type = ''image/png'', file_bytes = blob, lastModified = now e\<rparr>,
        error = None\<rparr>,
      [LoadPdfJs, ArrayBuffer, GetDocument, GetPage 1, GetViewport, CreateCanvas,
       GetContext, Render, ToBlob, CreateObjectURL])"
proof -
  have "convertPdfToImage e f = try_catch (try_block e f) catch_block []"
    using assms(1-4) by (intro convert_valid) (simp_all add: spec_notions maxSize_def)
  then show ?thesis
    using try_block_success [OF assms(5-11)]
    by (simp add: try_catch_def replace_pdf_regex_ends)
qed

theorem output_file_witness:
  "convertPdfToImage (browser (Fulfilled good_lib)) (pdf_file ''Resume.PDF'' ''application/pdf'' 4) =
     (Fulfilled \<lparr>imageUrl = ''blob:http://localhost/1'',
        file_field = Some \<lparr>file_name = ''Resume.png'',
          file_type = ''image/png'', file_bytes = [137, 80, 78, 71],
          lastModified = 1700000000000\<rparr>,
        error = None\<rparr>,
      [LoadPdfJs, ArrayBuffer, GetDocument, GetPage 1, GetViewport, CreateCanvas,
       GetContext, Render, ToBlob, CreateObjectURL])"
proof -
  have suffix: "ends_in_pdf ''Resume.PDF''"
    by (simp add: endsWith_lower_iff [symmetric] sample_lower endsWith_def)
  let ?e = "browser (Fulfilled good_lib)" and ?f = "pdf_file ''Resume.PDF'' ''application/pdf'' 4"
  have "convertPdfToImage ?e ?f =
     (Fulfilled \<lparr>imageUrl = createObjectURL ?e [137, 80, 78, 71],
        file_field = Some
          \<lparr>file_name =
             (if ends_in_pdf (file_name ?f)
              then take (length (file_name ?f) - 4) (file_name ?f) else file_name ?f) @ ''.png'',
           file_type = ''image/png'', file_bytes = [137, 80, 78, 71], lastModified = now ?e\<rparr>,
        error = None\<rparr>,
      [LoadPdfJs, ArrayBuffer, GetDocument, GetPage 1, GetViewport, CreateCanvas,
       GetContext, Render, ToBlob, CreateObjectURL])"
    by (rule output_file
        [where lib = good_lib and buf = "replicate 4 0" and pdf = one_page_pdf and page = letter_page])
      (simp_all add: spec_notions sample_fields sample_fields_more browser_def good_lib_def
        one_page_pdf_def letter_page_def)
  then show ?thesis
    by (simp add: suffix sample_fields browser_def)
qed

section \<open>The result of every invocation\<close>






section \<open>The uploader and the size rule\<close>

lemma accepted_subset:
  "set (useDropzone_accepted matches opts dropped) \<subseteq>
     {f \<in> set dropped. file_size f \<le> maxSize_option opts}"
  by (auto simp: useDropzone_accepted_def Let_def)

lemma accepted_single:
  "\<not> multiple opts \<Longrightarrow> length (useDropzone_accepted matches opts dropped) \<le> 1"
  by (simp add: useDropzone_accepted_def Let_def)

lemma onDrop_member: "onDrop fs = Some f \<Longrightarrow> f \<in> set fs"
  by (cases fs) (simp_all add: onDrop_def)

text \<open>
  Claim C10. The uploader passes on at most one file per drop, and only a file of at most
  20 MiB, which is below the converter's 50 MiB limit. So for a file selected by the
  uploader the size branch of \<open>convertPdfToImage\<close> is never taken: the call is decided by
  the context rule, the format rule and the conversion alone.
\<close>

theorem uploader_below_size_limit:
  "length (useDropzone_accepted matches FileUploader_options dropped) \<le> 1 \<and>
   maxFileSize = 20 * 1024 * 1024 \<and> maxFileSize < maxSize \<and>
   (onDrop (useDropzone_accepted matches FileUploader_options dropped) = Some f \<longrightarrow>
      f \<in> set dropped \<and> file_size f \<le> 20 * 1024 * 1024 \<and>
      \<not> 50 * 1024 * 1024 < file_size f \<and>
      convertPdfToImage e f =
        (if \<not> hasWindow e \<or> \<not> hasDocument e
         then (Fulfilled \<lparr>imageUrl = '''', file_field = None,
                 error = Some ''PDF conversion only works in the browser.''\<rparr>, [])
         else if \<not> contains (file_type f) ''pdf'' \<and> \<not> ends_in_pdf (file_name f)
         then (Fulfilled \<lparr>imageUrl = '''', file_field = None,
                 error = Some ''File must be a PDF document.''\<rparr>, [])
         else try_catch (try_block e f) catch_block []))"
proof (intro conjI impI)
  show "length (useDropzone_accepted matches FileUploader_options dropped) \<le> 1"
    by (rule accepted_single) (simp add: FileUploader_options_def)
  show "maxFileSize = 20 * 1024 * 1024" by (simp add: maxFileSize_def)
  show "maxFileSize < maxSize" by (simp add: maxFileSize_def maxSize_def)
next
  assume sel: "onDrop (useDropzone_accepted matches FileUploader_options dropped) = Some f"
  from onDrop_member [OF sel] accepted_subset [of matches FileUploader_options dropped]
  have mem: "f \<in> set dropped" and sz: "file_size f \<le> maxFileSize"
    by (auto simp: FileUploader_options_def)
  show "f \<in> set dropped" by (rule mem)
  show "file_size f \<le> 20 * 1024 * 1024" using sz by (simp add: maxFileSize_def)
  show "\<not> 50 * 1024 * 1024 < file_size f" using sz by (simp add: maxFileSize_def)
  show "convertPdfToImage e f =
        (if \<not> hasWindow e \<or> \<not> hasDocument e
         then (Fulfilled \<lparr>imageUrl = '''', file_field = None,
                 error = Some ''PDF conversion only works in the browser.''\<rparr>, [])
         else if \<not> contains (file_type f) ''pdf'' \<and> \<not> ends_in_pdf (file_name f)
         then (Fulfilled \<lparr>imageUrl = '''', file_field = None,
                 error = Some ''File must be a PDF document.''\<rparr>, [])
         else try_catch (try_block e f) catch_block [])"
    using sz unfolding spec_notions
    by (simp add: convertPdfToImage_def failure_def maxFileSize_def maxSize_def)
qed

theorem uploader_below_size_limit_witness:
  "onDrop (useDropzone_accepted (\<lambda>a f. True) FileUploader_options
      [pdf_file ''Resume.PDF'' ''application/pdf'' 4]) =
     Some (pdf_file ''Resume.PDF'' ''application/pdf'' 4) \<and>
   convertPdfToImage (browser (Fulfilled good_lib)) (pdf_file ''Resume.PDF'' ''application/pdf'' 4) =
     try_catch (try_block (browser (Fulfilled good_lib))
       (pdf_file ''Resume.PDF'' ''application/pdf'' 4)) catch_block []"
proof -
  let ?f = "pdf_file ''Resume.PDF'' ''application/pdf'' 4"
  have sel: "onDrop (useDropzone_accepted (\<lambda>a f. True) FileUploader_options [?f]) = Some ?f"
    by (simp add: onDrop_def useDropzone_accepted_def FileUploader_options_def maxFileSize_def
        sample_fields)
  show ?thesis
    using uploader_below_size_limit
      [of "\<lambda>a f. True" "[?f]" ?f "browser (Fulfilled good_lib)"] sel
    by (simp add: spec_notions sample_fields)
qed

section \<open>The loader\<close>

lemma initial_inv: "loader_inv initial"
  by (simp add: loader_inv_def initial_def)

lemma loadPdfJs_inv: "loader_inv s \<Longrightarrow> loader_inv (snd (loadPdfJs s))"
  by (auto simp: loader_inv_def loadPdfJs_def Let_def split: option.splits)

lemma import_fulfilled_inv: "loader_inv s \<Longrightarrow> loader_inv (import_fulfilled p lib url s)"
  by (auto simp: loader_inv_def import_fulfilled_def)

lemma import_rejected_inv: "loader_inv s \<Longrightarrow> loader_inv (import_rejected p t s)"
  by (auto simp: loader_inv_def import_rejected_def)

lemma step_inv: "loader_inv s \<Longrightarrow> loader_inv (step s ev)"
  by (cases ev) (simp_all add: loadPdfJs_inv import_fulfilled_inv import_rejected_inv)

lemma run_inv: "loader_inv s \<Longrightarrow> loader_inv (run s es)"
  unfolding run_def by (induction es arbitrary: s) (simp_all add: step_inv)

lemma run_append: "run s (es1 @ es2) = run (run s es1) es2"
  by (simp add: run_def)

lemma inv_length: "loader_inv s \<Longrightarrow> length (promises s) \<le> 1"
  by (auto simp: loader_inv_def)

lemma step_started:
  "loader_inv s \<Longrightarrow> promises s \<noteq> [] \<Longrightarrow> promises (step s ev) \<noteq> []"
  by (cases ev)
    (auto simp: loader_inv_def loadPdfJs_def import_fulfilled_def import_rejected_def Let_def
      split: option.splits)

lemma run_started:
  "loader_inv s \<Longrightarrow> promises s \<noteq> [] \<Longrightarrow> promises (run s es) \<noteq> []"
  unfolding run_def
  by (induction es arbitrary: s) (simp_all add: step_inv step_started)

lemma call_starts: "loader_inv s \<Longrightarrow> promises (step s Call) \<noteq> []"
  by (auto simp: loader_inv_def loadPdfJs_def Let_def split: option.splits)

lemma rejected_step:
  assumes "loader_inv s" and "loadPromise s = Some p" and "promises s ! p = Rejected t"
  shows "step s ev = s"
  using assms
  by (cases ev)
    (auto simp: loader_inv_def loadPdfJs_def import_fulfilled_def import_rejected_def)

lemma rejected_run:
  assumes "loader_inv s" and "loadPromise s = Some p" and "promises s ! p = Rejected t"
  shows "run s es = s"
  unfolding run_def using assms
  by (induction es) (simp_all add: rejected_step)

lemma failed_state_eq:
  "failed_state = \<lparr>pdfjsLib = None, loadPromise = Some 0, promises = [Rejected fetch_error]\<rparr>"
  by (simp add: failed_state_def run_def initial_def loadPdfJs_def import_rejected_def)

text \<open>
  Claim C4. Over any sequence of calls of \<open>loadPdfJs\<close> and settlements of the import, at
  most one import is started, and exactly one as soon as there is a call, however the calls
  of concurrent conversions interleave. A call with \<open>pdfjsLib\<close> set returns the handle and
  changes nothing; a call with a load promise set returns that promise and changes nothing;
  only a call with both unset starts an import, whose promise it stores and returns.
\<close>

theorem single_import:
  "length (promises (run initial es)) \<le> 1 \<and>
   (Call \<in> set es \<longrightarrow> length (promises (run initial es)) = 1) \<and>
   (pdfjsLib s = Some lib \<longrightarrow> loadPdfJs s = (Handle lib, s)) \<and>
   (pdfjsLib s = None \<and> loadPromise s = Some p \<longrightarrow> loadPdfJs s = (Promise p, s)) \<and>
   (pdfjsLib s = None \<and> loadPromise s = None \<longrightarrow>
      loadPdfJs s =
        (Promise (length (promises s)),
         s\<lparr>loadPromise := Some (length (promises s)), promises := promises s @ [Pending]\<rparr>))"
proof (intro conjI impI)
  show le: "length (promises (run initial es)) \<le> 1"
    by (intro inv_length run_inv initial_inv)
  show "length (promises (run initial es)) = 1" if "Call \<in> set es"
  proof -
    from that obtain es1 es2 where es: "es = es1 @ Call # es2"
      by (auto dest: split_list)
    let ?s = "run initial es1"
    have inv: "loader_inv ?s" by (intro run_inv initial_inv)
    have "run initial es = run (step ?s Call) es2"
      by (simp add: es run_def)
    moreover have "promises (run (step ?s Call) es2) \<noteq> []"
      by (intro run_started step_inv inv call_starts)
    ultimately have "promises (run initial es) \<noteq> []" by simp
    with le show ?thesis by (cases "promises (run initial es)") simp_all
  qed
qed (simp_all add: loadPdfJs_def Let_def)

theorem single_import_witness:
  "length (promises (run initial
     [Call, Call, ImportFulfilled 0 good_lib ''/assets/pdf.worker.min.mjs'', Call])) = 1 \<and>
   loadPdfJs initial =
     (Promise 0, \<lparr>pdfjsLib = None, loadPromise = Some 0, promises = [Pending]\<rparr>) \<and>
   loadPdfJs \<lparr>pdfjsLib = None, loadPromise = Some 0, promises = [Pending]\<rparr> =
     (Promise 0, \<lparr>pdfjsLib = None, loadPromise = Some 0, promises = [Pending]\<rparr>) \<and>
   loadPdfJs \<lparr>pdfjsLib = Some good_lib, loadPromise = Some 0, promises = [Fulfilled good_lib]\<rparr> =
     (Handle good_lib,
      \<lparr>pdfjsLib = Some good_lib, loadPromise = Some 0, promises = [Fulfilled good_lib]\<rparr>)"
  using single_import
      [of "[Call, Call, ImportFulfilled 0 good_lib ''/assets/pdf.worker.min.mjs'', Call]"
          initial good_lib 0]
    single_import
      [of "[]" "\<lparr>pdfjsLib = None, loadPromise = Some 0, promises = [Pending]\<rparr>" good_lib 0]
    single_import
      [of "[]" "\<lparr>pdfjsLib = Some good_lib, loadPromise = Some 0, promises = [Fulfilled good_lib]\<rparr>"
          good_lib 0]
  by (simp add: initial_def)

text \<open>
  Claim C3, as stated: after a failed load the next call starts a fresh load. After a first
  call whose import failed, the next call returns the same promise, which is rejected with
  the earlier failure, and the state still holds that one import.
\<close>

theorem failed_load_counterexample:
  "loadPdfJs failed_state = (Promise 0, failed_state) \<and>
   observe failed_state (Promise 0) = Rejected fetch_error \<and>
   promises (snd (loadPdfJs failed_state)) = [Rejected fetch_error]"
  by (simp add: failed_state_eq loadPdfJs_def observe_def)

text \<open>
  Claim C3, amended. If the library load fails, the failure stays cached: \<open>loadPromise\<close>
  keeps the rejected promise and \<open>pdfjsLib\<close> stays unset, so every later call of \<open>loadPdfJs\<close>
  returns that same rejected promise and starts no import, and a conversion that awaits it
  goes to its catch block after that one call: it returns the classified failure (or
  throws, when the rejection carries no string message).
\<close>

theorem failed_load_cached:
  assumes "loadPromise (run initial es1) = Some p"
    and "promises (run initial es1) ! p = Rejected t"
  shows "run initial (es1 @ es2) = run initial es1 \<and>
    loadPdfJs (run initial (es1 @ es2)) = (Promise p, run initial es1) \<and>
    observe (run initial (es1 @ es2)) (Promise p) = Rejected t \<and>
    length (promises (run initial (es1 @ es2))) = 1 \<and>
    (hasWindow e \<and> hasDocument e \<and>
       (contains (file_type f) ''pdf'' \<or> ends_in_pdf (file_name f)) \<and>
       file_size f \<le> 50 * 1024 * 1024 \<and>
       loadPdfJs_result e =
         observe (run initial (es1 @ es2)) (fst (loadPdfJs (run initial (es1 @ es2)))) \<longrightarrow>
       convertPdfToImage e f =
         (case errorMessage_of t of
            Some m \<Rightarrow>
              (Fulfilled \<lparr>imageUrl = '''', file_field = None, error = Some (classify m)\<rparr>,
               [LoadPdfJs])
          | None \<Rightarrow> (Rejected type_error, [LoadPdfJs])))"
proof -
  let ?s = "run initial es1"
  have inv: "loader_inv ?s" by (intro run_inv initial_inv)
  have same: "run initial (es1 @ es2) = ?s"
    unfolding run_append by (rule rejected_run [OF inv assms])
  have none: "pdfjsLib ?s = None" and one: "length (promises ?s) = 1"
    using inv assms by (auto simp: loader_inv_def)
  have call: "loadPdfJs ?s = (Promise p, ?s)"
    using none assms(1) by (simp add: loadPdfJs_def)
  have obs: "observe ?s (Promise p) = Rejected t"
    using assms(2) by (simp add: observe_def)
  have conv: "convertPdfToImage e f =
         (case errorMessage_of t of
            Some m \<Rightarrow>
              (Fulfilled \<lparr>imageUrl = '''', file_field = None, error = Some (classify m)\<rparr>,
               [LoadPdfJs])
          | None \<Rightarrow> (Rejected type_error, [LoadPdfJs]))"
    if h: "hasWindow e \<and> hasDocument e \<and>
       (contains (file_type f) ''pdf'' \<or> ends_in_pdf (file_name f)) \<and>
       file_size f \<le> 50 * 1024 * 1024 \<and>
       loadPdfJs_result e = observe ?s (fst (loadPdfJs ?s))"
  proof -
    from h call obs have "loadPdfJs_result e = Rejected t" by simp
    then have "try_block e f [] = (Rejected t, [LoadPdfJs])"
      by (simp add: try_block_def io_defs)
    with h have "convertPdfToImage e f = catch_block t [LoadPdfJs]"
      by (intro convert_rejected) (simp_all add: spec_notions maxSize_def)
    then show ?thesis
      by (simp add: catch_block_def ret_def throw_def failure_def split: option.splits)
  qed
  show ?thesis
    unfolding same using call obs one conv by blast
qed

theorem failed_load_cached_witness:
  "run initial ([Call, ImportRejected 0 fetch_error] @ [Call, Call]) = failed_state \<and>
   loadPdfJs (run initial ([Call, ImportRejected 0 fetch_error] @ [Call, Call])) =
     (Promise 0, failed_state) \<and>
   observe (run initial ([Call, ImportRejected 0 fetch_error] @ [Call, Call])) (Promise 0) =
     Rejected fetch_error \<and>
   length (promises (run initial ([Call, ImportRejected 0 fetch_error] @ [Call, Call]))) = 1 \<and>
   convertPdfToImage (browser (Rejected fetch_error))
       (pdf_file ''Resume.PDF'' ''application/pdf'' 4) =
     (Fulfilled \<lparr>imageUrl = '''', file_field = None,
        error = Some ''Failed to fetch dynamically imported module''\<rparr>, [LoadPdfJs])"
proof -
  have st: "run initial [Call, ImportRejected 0 fetch_error] = failed_state"
    by (simp add: failed_state_def)
  have h1: "loadPromise (run initial [Call, ImportRejected 0 fetch_error]) = Some 0"
    and h2: "promises (run initial [Call, ImportRejected 0 fetch_error]) ! 0 = Rejected fetch_error"
    by (simp_all add: st failed_state_eq)
  have cl: "errorMessage_of fetch_error = Some ''Failed to fetch dynamically imported module''"
    "classify ''Failed to fetch dynamically imported module'' =
      ''Failed to fetch dynamically imported module''"
    by (simp_all add: fetch_error_def errorMessage_of_def classify_def)
  note inst = failed_load_cached [OF h1 h2, of "[Call, Call]" "browser (Rejected fetch_error)"
      "pdf_file ''Resume.PDF'' ''application/pdf'' 4"]
  from inst have same: "run initial ([Call, ImportRejected 0 fetch_error] @ [Call, Call]) = failed_state"
    by (simp add: st)
  have obs: "observe failed_state (fst (loadPdfJs failed_state)) = Rejected fetch_error"
    by (simp add: failed_state_eq loadPdfJs_def observe_def)
  from inst show ?thesis
    unfolding same st
    by (simp add: cl obs spec_notions sample_fields)
qed

end
